theory Spec2Isabelle
  imports Main
begin

section \<open>JavaScript values\<close>

text \<open>
  The client (\<^verbatim>\<open>src/api/client.js\<close>) and the application shell (\<^verbatim>\<open>App.js\<close>) handle
  values that come out of \<^verbatim>\<open>JSON.parse\<close>, out of browser storage and out of forms.
  They are modelled by one datatype.  Strings are lists of 8-bit characters (the
  Latin-1 range of JavaScript's code units).  A number is represented by the
  string \<^verbatim>\<open>Number.prototype.toString\<close> gives for it (\<^verbatim>\<open>1\<close>, \<^verbatim>\<open>-2.5\<close>, \<^verbatim>\<open>1e+21\<close>, \<^verbatim>\<open>NaN\<close>,
  \<^verbatim>\<open>Infinity\<close>): two numbers have the same string exactly when they are the same
  value, \<^verbatim>\<open>0\<close> and \<^verbatim>\<open>-0\<close> apart, which truthiness, \<^verbatim>\<open>===\<close> and conversion to a
  string do not tell apart either.  An object is the list of its own properties,
  the first binding of a key being the one that counts.
\<close>

datatype jsval =
    JUndefined
  | JNull
  | JBool bool
  | JNum string
  | JStr string
  | JArr "jsval list"
  | JObj "(string \<times> jsval) list"

text \<open>Truthiness, as in \<^verbatim>\<open>if (v)\<close>, \<^verbatim>\<open>v && w\<close>, \<^verbatim>\<open>v || w\<close> and \<^verbatim>\<open>v ? a : b\<close>.\<close>

fun truthy :: "jsval \<Rightarrow> bool" where
  "truthy JUndefined = False"
| "truthy JNull = False"
| "truthy (JBool b) = b"
| "truthy (JNum n) = (n \<noteq> ''0'' \<and> n \<noteq> ''NaN'')"
| "truthy (JStr s) = (s \<noteq> [])"
| "truthy (JArr xs) = True"
| "truthy (JObj kvs) = True"

text \<open>\<^verbatim>\<open>a || b\<close>: the first operand when it is truthy, the second otherwise.\<close>

definition js_or :: "jsval \<Rightarrow> jsval \<Rightarrow> jsval" where
  "js_or a b = (if truthy a then a else b)"

fun nullish :: "jsval \<Rightarrow> bool" where
  "nullish JUndefined = True"
| "nullish JNull = True"
| "nullish v = False"

text \<open>
  \<^verbatim>\<open>v.k\<close> for a value that is neither \<^verbatim>\<open>null\<close> nor \<^verbatim>\<open>undefined\<close>, and for the
  keys the program reads (\<^verbatim>\<open>detail\<close>, \<^verbatim>\<open>access_token\<close>, \<^verbatim>\<open>id\<close>, \<^verbatim>\<open>title\<close>,
  \<^verbatim>\<open>content\<close>, \<^verbatim>\<open>REACT_APP_API_BASE\<close>, \<^verbatim>\<open>VITE_API_BASE\<close>): none of them is a
  built-in property of a string, a number, a boolean or an array, so only an
  object can hold one.  Every use below is guarded by truthiness of \<open>v\<close> or goes
  through \<open>get_prop\<close>.
\<close>

fun get_field :: "jsval \<Rightarrow> string \<Rightarrow> jsval" where
  "get_field (JObj kvs) k = (case map_of kvs k of Some v \<Rightarrow> v | None \<Rightarrow> JUndefined)"
| "get_field v k = JUndefined"

subsection \<open>Exceptions\<close>

text \<open>
  Everything the program throws or catches is an \<^verbatim>\<open>Error\<close> object.  \<open>HttpError\<close> is
  the one \<^verbatim>\<open>handleResponse\<close> builds, with its \<^verbatim>\<open>message\<close>, \<^verbatim>\<open>status\<close> and \<^verbatim>\<open>data\<close>.
  \<open>PlatformError\<close> is an exception raised by the platform (a \<^verbatim>\<open>TypeError\<close>, a
  \<^verbatim>\<open>DOMException\<close> of the storage, a rejected \<^verbatim>\<open>fetch\<close>), with its message.
  A function that may throw returns \<open>js_error + 'a\<close>, \<open>Inl\<close> being the throw
  (for an \<^verbatim>\<open>async\<close> function: the rejection).
\<close>

datatype js_error =
    HttpError string nat jsval
  | PlatformError string

type_synonym 'a result = "js_error + 'a"

fun err_message :: "js_error \<Rightarrow> string" where
  "err_message (HttpError m st d) = m"
| "err_message (PlatformError m) = m"

text \<open>
  The messages of the platform's own exceptions are the engine's.  The texts of V8
  stand for those of a \<^verbatim>\<open>TypeError\<close>, and its name for that of a \<^verbatim>\<open>DOMException\<close> of
  the storage.  No property below depends on them.
\<close>

definition cannot_convert :: js_error where
  "cannot_convert = PlatformError ''Cannot convert object to primitive value''"

definition cannot_read :: "jsval \<Rightarrow> string \<Rightarrow> js_error" where
  "cannot_read v k = PlatformError
     (''Cannot read properties of '' @ (if v = JNull then ''null'' else ''undefined'')
        @ '' (reading '' @ [CHR 0x27] @ k @ [CHR 0x27] @ '')'')"

text \<open>\<^verbatim>\<open>v.k\<close> unguarded: reading a property of \<^verbatim>\<open>null\<close> or \<^verbatim>\<open>undefined\<close> throws.\<close>

definition get_prop :: "jsval \<Rightarrow> string \<Rightarrow> jsval result" where
  "get_prop v k = (if nullish v then Inl (cannot_read v k) else Inr (get_field v k))"

subsection \<open>Conversion to a string\<close>

text \<open>\<^verbatim>\<open>Array.prototype.join(",")\<close> on the strings of the elements.\<close>

fun join_comma :: "string list \<Rightarrow> string" where
  "join_comma [] = []"
| "join_comma [s] = s"
| "join_comma (s # t # ss) = s @ '','' @ join_comma (t # ss)"

fun sequence_opt :: "'a option list \<Rightarrow> 'a list option" where
  "sequence_opt [] = Some []"
| "sequence_opt (None # xs) = None"
| "sequence_opt (Some x # xs) = (case sequence_opt xs of None \<Rightarrow> None | Some ys \<Rightarrow> Some (x # ys))"

text \<open>
  \<^verbatim>\<open>ToString\<close> of the language, which \<^verbatim>\<open>new Error(message)\<close>, a template literal and
  \<^verbatim>\<open>localStorage.setItem\<close> apply to their argument; \<open>None\<close> is the \<^verbatim>\<open>TypeError\<close>
  "cannot convert object to primitive value".  An array is the join of its
  elements, \<^verbatim>\<open>null\<close> and \<^verbatim>\<open>undefined\<close> counting as empty.  An object parsed from
  JSON inherits \<^verbatim>\<open>Object.prototype.toString\<close>, which gives \<^verbatim>\<open>[object Object]\<close>,
  unless it has a property \<^verbatim>\<open>toString\<close> of its own: that one is not callable, and
  neither \<^verbatim>\<open>valueOf\<close> yields a primitive, so the conversion throws.
\<close>

fun to_string :: "jsval \<Rightarrow> string option" where
  "to_string JUndefined = Some ''undefined''"
| "to_string JNull = Some ''null''"
| "to_string (JBool b) = Some (if b then ''true'' else ''false'')"
| "to_string (JNum n) = Some n"
| "to_string (JStr s) = Some s"
| "to_string (JArr xs) =
     map_option join_comma
       (sequence_opt (map (\<lambda>x. if nullish x then Some [] else to_string x) xs))"
| "to_string (JObj kvs) =
     (if ''toString'' \<in> fst ` set kvs then None else Some ''[object Object]'')"

subsection \<open>String methods\<close>

text \<open>\<^verbatim>\<open>s.includes(sub)\<close>: \<open>sub\<close> occurs in \<open>s\<close> as a contiguous run.\<close>

fun includes_str :: "string \<Rightarrow> string \<Rightarrow> bool" where
  "includes_str [] sub = (sub = [])"
| "includes_str (c # cs) sub = (take (length sub) (c # cs) = sub \<or> includes_str cs sub)"

text \<open>
  The white space and line terminators \<^verbatim>\<open>trim\<close> removes, among the code units
  below 256: tab, line feed, vertical tab, form feed, carriage return, space and
  the no-break space.
\<close>

definition js_space :: "char \<Rightarrow> bool" where
  "js_space c = ((of_char c :: nat) \<in> {9, 10, 11, 12, 13, 32, 160})"

definition trim :: "string \<Rightarrow> string" where
  "trim s = rev (dropWhile js_space (rev (dropWhile js_space s)))"

section \<open>The HTTP client\<close>

subsection \<open>Base URL\<close>

text \<open>
  What \<^verbatim>\<open>resolveBaseUrl\<close> reads: the two variables of \<^verbatim>\<open>process.env\<close> (a string, or
  \<^verbatim>\<open>undefined\<close> when unset) and \<^verbatim>\<open>window.ENV\<close> (\<open>None\<close> where there is no
  \<^verbatim>\<open>window\<close>; \<open>Some JUndefined\<close> where nothing was injected).  An injected
  \<^verbatim>\<open>window.ENV\<close> is configuration data: a value of \<open>jsval\<close>.
\<close>

record environment =
  process_REACT_APP_API_BASE :: "string option"
  process_VITE_API_BASE :: "string option"
  window_ENV :: "jsval option"

definition env_var :: "string option \<Rightarrow> jsval" where
  "env_var v = (case v of None \<Rightarrow> JUndefined | Some s \<Rightarrow> JStr s)"

definition default_base :: string where
  "default_base = ''http://localhost:3001''"

definition runtimeEnv :: "environment \<Rightarrow> jsval" where
  "runtimeEnv env =
     (case window_ENV env of
        None \<Rightarrow> JObj []
      | Some v \<Rightarrow> if truthy v then v else JObj [])"

definition envBase :: "environment \<Rightarrow> jsval" where
  "envBase env =
     js_or (js_or (js_or (env_var (process_REACT_APP_API_BASE env))
                         (get_field (runtimeEnv env) ''REACT_APP_API_BASE''))
                  (env_var (process_VITE_API_BASE env)))
           (get_field (runtimeEnv env) ''VITE_API_BASE'')"

text \<open>
  \<^verbatim>\<open>envBase && envBase.trim() !== "" ? envBase : "http://localhost:3001"\<close>.  Only a
  string has a \<^verbatim>\<open>trim\<close> method: on any other truthy value the call throws.
\<close>

definition resolveBaseUrl :: "environment \<Rightarrow> string result" where
  "resolveBaseUrl env =
     (let b = envBase env in
      if truthy b then
        (case b of
           JStr s \<Rightarrow> Inr (if trim s \<noteq> [] then s else default_base)
         | _ \<Rightarrow> Inl (PlatformError ''envBase.trim is not a function''))
      else Inr default_base)"

text \<open>
  The four places a base URL can come from, in the order \<^verbatim>\<open>resolveBaseUrl\<close> reads them,
  and what it is for one of them not to be set to a non-blank value: it is falsy
  (\<^verbatim>\<open>undefined\<close>, the empty string), or a string of white space only.
\<close>

definition sources :: "environment \<Rightarrow> jsval list" where
  "sources env =
     [env_var (process_REACT_APP_API_BASE env),
      get_field (runtimeEnv env) ''REACT_APP_API_BASE'',
      env_var (process_VITE_API_BASE env),
      get_field (runtimeEnv env) ''VITE_API_BASE'']"

definition blank :: "jsval \<Rightarrow> bool" where
  "blank v = (case v of JStr s \<Rightarrow> list_all js_space s | _ \<Rightarrow> \<not> truthy v)"

subsection \<open>Token storage\<close>

text \<open>
  \<^verbatim>\<open>localStorage\<close>: the stored items, and how the browser treats an access.  With
  \<open>Denied\<close> every access throws (storage disabled or unavailable); with
  \<open>QuotaExceeded\<close> reading and removing work and every write throws.
\<close>

datatype storage_mode = Working | QuotaExceeded | Denied

record storage =
  items :: "string \<Rightarrow> string option"
  mode :: storage_mode

definition getItem :: "string \<Rightarrow> storage \<Rightarrow> string option result" where
  "getItem key st =
     (if mode st = Denied then Inl (PlatformError ''SecurityError'')
      else Inr (items st key))"

definition setItem :: "string \<Rightarrow> jsval \<Rightarrow> storage \<Rightarrow> storage result" where
  "setItem key v st =
     (if mode st = Denied then Inl (PlatformError ''SecurityError'')
      else case to_string v of
             None \<Rightarrow> Inl cannot_convert
           | Some s \<Rightarrow>
               if mode st = QuotaExceeded then Inl (PlatformError ''QuotaExceededError'')
               else Inr (st\<lparr>items := (items st)(key \<mapsto> s)\<rparr>))"

definition removeItem :: "string \<Rightarrow> storage \<Rightarrow> storage result" where
  "removeItem key st =
     (if mode st = Denied then Inl (PlatformError ''SecurityError'')
      else Inr (st\<lparr>items := (items st)(key := None)\<rparr>))"

text \<open>\<^verbatim>\<open>getToken\<close>: the stored string or \<^verbatim>\<open>null\<close> (\<open>None\<close>); the \<^verbatim>\<open>catch\<close> returns \<^verbatim>\<open>null\<close>.\<close>

definition getToken :: "storage \<Rightarrow> string option result" where
  "getToken st =
     (case getItem ''auth_token'' st of
        Inr v \<Rightarrow> Inr v
      | Inl e \<Rightarrow> Inr None)"

text \<open>\<^verbatim>\<open>setToken\<close>: the \<^verbatim>\<open>catch\<close> ignores the error, the storage is as it was.\<close>

definition setToken :: "jsval \<Rightarrow> storage \<Rightarrow> storage result" where
  "setToken token st =
     (case (if truthy token then setItem ''auth_token'' token st
            else removeItem ''auth_token'' st) of
        Inr st' \<Rightarrow> Inr st'
      | Inl e \<Rightarrow> Inr st)"

subsection \<open>Headers\<close>

type_synonym headers = "(string \<times> string) list"

definition buildHeaders :: "bool \<Rightarrow> storage \<Rightarrow> headers result" where
  "buildHeaders authorized st =
     (let headers = [(''Content-Type'', ''application/json'')] in
      if authorized then
        (case getToken st of
           Inl e \<Rightarrow> Inl e
         | Inr token \<Rightarrow>
             (case token of
                None \<Rightarrow> Inr headers
              | Some t \<Rightarrow>
                  if t \<noteq> [] then Inr (headers @ [(''Authorization'', ''Bearer '' @ t)])
                  else Inr headers))
      else Inr headers)"

subsection \<open>Responses\<close>

text \<open>
  A response as \<^verbatim>\<open>handleResponse\<close> sees it: the status and its text, the
  \<^verbatim>\<open>content-type\<close> header (\<open>None\<close> when absent), what \<^verbatim>\<open>res.json()\<close> resolves to
  (\<open>None\<close> when it rejects: the body is not JSON) and what \<^verbatim>\<open>res.text()\<close> resolves
  to.  The body is taken as received in full.  \<^verbatim>\<open>res.ok\<close> is true for the statuses
  200 to 299.
\<close>

record response =
  status :: nat
  statusText :: string
  content_type :: "string option"
  body_json :: "jsval option"
  body_text :: string

definition ok :: "response \<Rightarrow> bool" where
  "ok res = (200 \<le> status res \<and> status res \<le> 299)"

definition isJson :: "response \<Rightarrow> bool" where
  "isJson res =
     includes_str (case content_type res of None \<Rightarrow> [] | Some c \<Rightarrow> c) ''application/json''"

definition read_body :: "response \<Rightarrow> jsval" where
  "read_body res =
     (if isJson res then (case body_json res of Some v \<Rightarrow> v | None \<Rightarrow> JObj [])
      else JStr (body_text res))"

definition handleResponse :: "response \<Rightarrow> jsval result" where
  "handleResponse res =
     (let body = read_body res in
      if \<not> ok res then
        (let message =
               (if isJson res \<and> truthy body \<and> truthy (get_field body ''detail'')
                then get_field body ''detail''
                else js_or (JStr (statusText res)) (JStr ''Request failed''))
         in case to_string message of
              None \<Rightarrow> Inl cannot_convert
            | Some m \<Rightarrow> Inl (HttpError m (status res) body))
      else Inr body)"

subsection \<open>Login and logout\<close>

text \<open>
  \<^verbatim>\<open>api.login\<close>, given what \<^verbatim>\<open>await fetch(...)\<close> yields (a response, or the rejection
  of a failed transport): the value the call resolves or rejects with, and the
  storage afterwards.
\<close>

definition login :: "response result \<Rightarrow> storage \<Rightarrow> jsval result \<times> storage" where
  "login fetched st =
     (case fetched of
        Inl e \<Rightarrow> (Inl e, st)
      | Inr res \<Rightarrow>
          (case handleResponse res of
             Inl e \<Rightarrow> (Inl e, st)
           | Inr data \<Rightarrow>
               if truthy data \<and> truthy (get_field data ''access_token'') then
                 (case setToken (get_field data ''access_token'') st of
                    Inl e \<Rightarrow> (Inl e, st)
                  | Inr st' \<Rightarrow> (Inr data, st'))
               else (Inr data, st)))"

definition logout :: "storage \<Rightarrow> unit result \<times> storage" where
  "logout st =
     (case setToken JNull st of
        Inl e \<Rightarrow> (Inl e, st)
      | Inr st' \<Rightarrow> (Inr (), st'))"

section \<open>The application shell\<close>

text \<open>
  The part of the state of \<^verbatim>\<open>App\<close> that the entry handlers read and write: the list
  of entries, the error message and the draft.  \<^verbatim>\<open>draft.id\<close> is the field
  \<open>id_field\<close>.
\<close>

record draft_form =
  id_field :: jsval
  title :: jsval
  content :: jsval

record ui_state =
  entries :: "jsval list"
  err :: string
  draft :: draft_form

text \<open>\<^verbatim>\<open>{ id: null, title: "", content: "" }\<close>, the initial draft and every reset.\<close>

definition empty_draft :: draft_form where
  "empty_draft = \<lparr>id_field = JNull, title = JStr [], content = JStr []\<rparr>"


text \<open>
  The calls of the client layer on entries.  A handler is given the client layer
  as a function from the call to what its promise settles to, and returns the
  list of calls it made next to the state it leaves (\<open>Inl\<close>: an uncaught
  \<^verbatim>\<open>TypeError\<close>, thrown by the handler or by a state updater it queued).
\<close>

datatype api_call =
    CreateEntry jsval jsval
  | UpdateEntry jsval jsval jsval
  | DeleteEntry jsval
  | ListEntries

type_synonym api = "api_call \<Rightarrow> jsval result"

text \<open>\<^verbatim>\<open>e1?.message || fallback\<close>, for the \<^verbatim>\<open>Error\<close> object a handler catches.\<close>

definition message_or :: "js_error \<Rightarrow> string \<Rightarrow> string" where
  "message_or e1 fallback = (if err_message e1 \<noteq> [] then err_message e1 else fallback)"

text \<open>
  \<^verbatim>\<open>a === b\<close>.  Primitive values are compared by value, and \<^verbatim>\<open>NaN\<close> equals nothing.
  Two arrays or objects are equal when they are the same object, which their
  structure does not tell: \<open>same\<close> says whether they are.  A primitive value never
  equals an array or an object.
\<close>

fun is_ref :: "jsval \<Rightarrow> bool" where
  "is_ref (JArr xs) = True"
| "is_ref (JObj kvs) = True"
| "is_ref v = False"

definition strict_eq :: "bool \<Rightarrow> jsval \<Rightarrow> jsval \<Rightarrow> bool" where
  "strict_eq same a b =
     (if is_ref a \<and> is_ref b then same else a = b \<and> a \<noteq> JNum ''NaN'')"

text \<open>The elements of an array with their indices, as a callback of \<^verbatim>\<open>map\<close> gets them.\<close>

definition indexed :: "'a list \<Rightarrow> (nat \<times> 'a) list" where
  "indexed xs = enumerate 0 xs"

text \<open>
  \<^verbatim>\<open>Array.prototype.map\<close> and \<^verbatim>\<open>filter\<close> with a callback that may throw: the first
  throw ends the iteration.
\<close>

fun map_result :: "('a \<Rightarrow> 'b result) \<Rightarrow> 'a list \<Rightarrow> 'b list result" where
  "map_result f [] = Inr []"
| "map_result f (x # xs) =
     (case f x of
        Inl e \<Rightarrow> Inl e
      | Inr y \<Rightarrow> (case map_result f xs of Inl e \<Rightarrow> Inl e | Inr ys \<Rightarrow> Inr (y # ys)))"

fun filter_result :: "('a \<Rightarrow> bool result) \<Rightarrow> 'a list \<Rightarrow> 'a list result" where
  "filter_result p [] = Inr []"
| "filter_result p (x # xs) =
     (case p x of
        Inl e \<Rightarrow> Inl e
      | Inr b \<Rightarrow>
          (case filter_result p xs of
             Inl e \<Rightarrow> Inl e
           | Inr ys \<Rightarrow> Inr (if b then x # ys else ys)))"

subsection \<open>Handlers\<close>

definition onCreate :: "api \<Rightarrow> ui_state \<Rightarrow> ui_state result \<times> api_call list" where
  "onCreate api s =
     (let s1 = s\<lparr>err := []\<rparr>;
          call = CreateEntry (title (draft s)) (content (draft s))
      in (case api call of
            Inr created \<Rightarrow> Inr (s1\<lparr>draft := empty_draft, entries := created # entries s1\<rparr>)
          | Inl e1 \<Rightarrow> Inr (s1\<lparr>err := message_or e1 ''Create failed''\<rparr>),
          [call]))"


text \<open>
  The updaters \<^verbatim>\<open>prev.map((it) => (it.id === draft.id ? updated : it))\<close> and
  \<^verbatim>\<open>prev.filter((it) => it.id !== id)\<close>.  Where the \<^verbatim>\<open>id\<close> of row \<open>k\<close> and the
  identifier compared with it are both arrays or objects, \<open>same k\<close> says whether
  they are the same object.
\<close>

definition replace_entry ::
  "jsval \<Rightarrow> jsval \<Rightarrow> (nat \<Rightarrow> bool) \<Rightarrow> jsval list \<Rightarrow> jsval list result" where
  "replace_entry i updated same prev =
     map_result
       (\<lambda>(k, it). case get_prop it ''id'' of
                Inl e \<Rightarrow> Inl e
              | Inr v \<Rightarrow> Inr (if strict_eq (same k) v i then updated else it))
       (indexed prev)"

definition remove_entry :: "jsval \<Rightarrow> (nat \<Rightarrow> bool) \<Rightarrow> jsval list \<Rightarrow> jsval list result" where
  "remove_entry i same prev =
     (case filter_result
             (\<lambda>(k, it). case get_prop it ''id'' of
                      Inl e \<Rightarrow> Inl e
                    | Inr v \<Rightarrow> Inr (\<not> strict_eq (same k) v i))
             (indexed prev) of
        Inl e \<Rightarrow> Inl e
      | Inr kept \<Rightarrow> Inr (map snd kept))"

definition onUpdate ::
  "api \<Rightarrow> (nat \<Rightarrow> bool) \<Rightarrow> ui_state \<Rightarrow> ui_state result \<times> api_call list" where
  "onUpdate api same s =
     (if \<not> truthy (id_field (draft s)) then (Inr s, [])
      else
        (let s1 = s\<lparr>err := []\<rparr>;
             call = UpdateEntry (id_field (draft s)) (title (draft s)) (content (draft s))
         in (case api call of
               Inr updated \<Rightarrow>
                 (case replace_entry (id_field (draft s)) updated same (entries s1) of
                    Inl e \<Rightarrow> Inl e
                  | Inr es \<Rightarrow> Inr (s1\<lparr>entries := es, draft := empty_draft\<rparr>))
             | Inl e1 \<Rightarrow> Inr (s1\<lparr>err := message_or e1 ''Update failed''\<rparr>),
             [call])))"

definition onDelete ::
  "jsval \<Rightarrow> api \<Rightarrow> (nat \<Rightarrow> bool) \<Rightarrow> ui_state \<Rightarrow> ui_state result \<times> api_call list" where
  "onDelete i api same s =
     (let s1 = s\<lparr>err := []\<rparr>;
          call = DeleteEntry i
      in (case api call of
            Inr confirmation \<Rightarrow>
              (case remove_entry i same (entries s1) of
                 Inl e \<Rightarrow> Inl e
               | Inr es \<Rightarrow> Inr (s1\<lparr>entries := es\<rparr>))
          | Inl e1 \<Rightarrow> Inr (s1\<lparr>err := message_or e1 ''Delete failed''\<rparr>),
          [call]))"




subsection \<open>Runs\<close>

text \<open>
  What the user does, with what the client call of the handler settles to.
  \<open>SelectEdit n\<close> and \<open>Delete n\<close> are the buttons of row \<open>n\<close> of the list; a row
  that is not there has no button.  The form submits to \<^verbatim>\<open>onUpdate\<close> when
  \<^verbatim>\<open>draft.id\<close> is truthy and to \<^verbatim>\<open>onCreate\<close> otherwise, and only the matching button
  is rendered.  \<open>Update\<close> and \<open>Delete\<close> carry, for each row, whether its \<^verbatim>\<open>id\<close> is the
  same object as the identifier compared with it (read only where both are arrays
  or objects).  A handler runs to its end before the next event: what the user
  does while a call is pending is not modelled.
\<close>

datatype ui_event =
    Create "jsval result"
  | SelectEdit nat
  | Update "jsval result" "nat \<Rightarrow> bool"
  | Delete nat "jsval result" "nat \<Rightarrow> bool"
  | Cancel
  | ChangeTitle string
  | ChangeContent string




text \<open>
  The draft refers to a previously listed entry: \<^verbatim>\<open>draft.id\<close> is \<^verbatim>\<open>null\<close>, or it is the
  \<^verbatim>\<open>id\<close> of an entry of the list of one of the states \<open>hist\<close>.
\<close>

definition draft_refers_to_seen :: "ui_state list \<Rightarrow> ui_state \<Rightarrow> bool" where
  "draft_refers_to_seen hist s =
     (id_field (draft s) = JNull \<or>
      (\<exists>s0 \<in> set hist. \<exists>e \<in> set (entries s0). get_field e ''id'' = id_field (draft s)))"


section \<open>Properties of the HTTP client\<close>

subsection \<open>Error responses\<close>

lemma truthy_get_field: "truthy (get_field v k) \<Longrightarrow> truthy v"
  by (cases v) simp_all

lemma status_text_message:
  "to_string (js_or (JStr t) (JStr ''Request failed'')) = Some (if t \<noteq> [] then t else ''Request failed'')"
  by (simp add: js_or_def)

text \<open>
  C1, as amended.  A response with a status outside 200..299, a JSON content type
  and a parsed body whose \<^verbatim>\<open>detail\<close> is truthy makes \<^verbatim>\<open>handleResponse\<close> throw an
  error whose \<^verbatim>\<open>status\<close> is the status of the response, whose \<^verbatim>\<open>data\<close> is the parsed
  body, and whose \<^verbatim>\<open>message\<close> is \<^verbatim>\<open>detail\<close> converted to a string \<open>m\<close> (for a number,
  the string \<^verbatim>\<open>Number.prototype.toString\<close> gives, as \<^verbatim>\<open>1e+21\<close>):
  \<^verbatim>\<open>new Error(message)\<close> converts its argument.  When \<^verbatim>\<open>detail\<close> is a string, the
  message is that string.
\<close>

theorem handleResponse_detail:
  assumes "\<not> ok res" and "isJson res" and "body_json res = Some body"
    and "truthy (get_field body ''detail'')"
    and "to_string (get_field body ''detail'') = Some m"
  shows "handleResponse res = Inl (HttpError m (status res) body) \<and>
         (\<forall>x. get_field body ''detail'' = JStr x \<longrightarrow> m = x)"
proof -
  have b: "read_body res = body"
    using assms(2,3) by (simp add: read_body_def)
  have "truthy body"
    using assms(4) by (rule truthy_get_field)
  with assms b have "handleResponse res = Inl (HttpError m (status res) body)"
    by (simp add: handleResponse_def)
  moreover have "\<forall>x. get_field body ''detail'' = JStr x \<longrightarrow> m = x"
    using assms(5) by auto
  ultimately show ?thesis by simp
qed

theorem handleResponse_detail_witness:
  "\<not> ok \<lparr>status = 404, statusText = ''Not Found'', content_type = Some ''application/json'',
            body_json = Some (JObj [(''detail'', JStr ''X'')]), body_text = []\<rparr> \<and>
   handleResponse
     \<lparr>status = 404, statusText = ''Not Found'', content_type = Some ''application/json'',
      body_json = Some (JObj [(''detail'', JStr ''X'')]), body_text = []\<rparr>
   = Inl (HttpError ''X'' 404 (JObj [(''detail'', JStr ''X'')]))"
proof -
  let ?res = "\<lparr>status = 404, statusText = ''Not Found'', content_type = Some ''application/json'',
               body_json = Some (JObj [(''detail'', JStr ''X'')]), body_text = []\<rparr>"
  let ?body = "JObj [(''detail'', JStr ''X'')]"
  have 1: "\<not> ok ?res" by (simp add: ok_def)
  have 2: "isJson ?res" by (simp add: isJson_def)
  have 3: "body_json ?res = Some ?body" by simp
  have 4: "truthy (get_field ?body ''detail'')" by simp
  have 5: "to_string (get_field ?body ''detail'') = Some ''X''" by simp
  from handleResponse_detail [OF 1 2 3 4 5] 1 show ?thesis by simp
qed

text \<open>
  As stated, C1 has the message equal to \<^verbatim>\<open>detail\<close> for every truthy value.  A
  validation error whose \<^verbatim>\<open>detail\<close> is a list of objects is thrown with the message
  \<^verbatim>\<open>[object Object]\<close>, which is not the list.
\<close>

theorem handleResponse_detail_counterexample:
  "\<not> ok \<lparr>status = 422, statusText = ''Unprocessable Entity'',
            content_type = Some ''application/json'',
            body_json = Some (JObj [(''detail'', JArr [JObj [(''msg'', JStr ''field required'')]])]),
            body_text = []\<rparr> \<and>
   truthy (get_field (JObj [(''detail'', JArr [JObj [(''msg'', JStr ''field required'')]])]) ''detail'') \<and>
   handleResponse
     \<lparr>status = 422, statusText = ''Unprocessable Entity'',
      content_type = Some ''application/json'',
      body_json = Some (JObj [(''detail'', JArr [JObj [(''msg'', JStr ''field required'')]])]),
      body_text = []\<rparr>
   = Inl (HttpError ''[object Object]'' 422
            (JObj [(''detail'', JArr [JObj [(''msg'', JStr ''field required'')]])])) \<and>
   JStr ''[object Object]''
     \<noteq> get_field (JObj [(''detail'', JArr [JObj [(''msg'', JStr ''field required'')]])]) ''detail''"
  by (simp add: ok_def handleResponse_def read_body_def isJson_def)

text \<open>
  C5, as amended.  A response with a status outside 200..299 and a content type
  that is not JSON makes \<^verbatim>\<open>handleResponse\<close> throw an error whose message is the
  status text when that is not empty, and \<^verbatim>\<open>Request failed\<close> when it is; its
  \<^verbatim>\<open>data\<close> is the text of the body.
\<close>

theorem handleResponse_not_json:
  assumes "\<not> ok res" and "\<not> isJson res"
  shows "handleResponse res =
         Inl (HttpError (if statusText res \<noteq> [] then statusText res else ''Request failed'')
                (status res) (JStr (body_text res)))"
  using assms by (simp add: handleResponse_def read_body_def status_text_message)

theorem handleResponse_not_json_witness:
  "\<not> ok \<lparr>status = 502, statusText = ''Bad Gateway'', content_type = Some ''text/html'',
            body_json = None, body_text = ''<html></html>''\<rparr> \<and>
   \<not> isJson \<lparr>status = 502, statusText = ''Bad Gateway'', content_type = Some ''text/html'',
            body_json = None, body_text = ''<html></html>''\<rparr> \<and>
   handleResponse
     \<lparr>status = 502, statusText = ''Bad Gateway'', content_type = Some ''text/html'',
      body_json = None, body_text = ''<html></html>''\<rparr>
   = Inl (HttpError ''Bad Gateway'' 502 (JStr ''<html></html>''))"
proof -
  let ?res = "\<lparr>status = 502, statusText = ''Bad Gateway'', content_type = Some ''text/html'',
               body_json = None, body_text = ''<html></html>''\<rparr>"
  have 1: "\<not> ok ?res" by (simp add: ok_def)
  have 2: "\<not> isJson ?res" by (simp add: isJson_def)
  from handleResponse_not_json [OF 1 2] 1 2 show ?thesis by simp
qed

text \<open>
  As stated, C5 has the message equal to the status text.  With an empty status
  text (as over HTTP/2) the message is \<^verbatim>\<open>Request failed\<close>.
\<close>

theorem handleResponse_not_json_counterexample:
  "\<not> ok \<lparr>status = 500, statusText = [], content_type = Some ''text/plain'',
            body_json = None, body_text = ''upstream failure''\<rparr> \<and>
   \<not> isJson \<lparr>status = 500, statusText = [], content_type = Some ''text/plain'',
            body_json = None, body_text = ''upstream failure''\<rparr> \<and>
   handleResponse
     \<lparr>status = 500, statusText = [], content_type = Some ''text/plain'',
      body_json = None, body_text = ''upstream failure''\<rparr>
   = Inl (HttpError ''Request failed'' 500 (JStr ''upstream failure'')) \<and>
   ''Request failed'' \<noteq> statusText \<lparr>status = 500, statusText = [], content_type = Some ''text/plain'',
      body_json = None, body_text = ''upstream failure''\<rparr>"
  by (simp add: ok_def handleResponse_def read_body_def isJson_def js_or_def)

text \<open>
  C10.  A response with a status outside 200..299 and a JSON content type whose
  body does not parse (\<^verbatim>\<open>res.json()\<close> rejects) still makes \<^verbatim>\<open>handleResponse\<close> throw
  the HTTP error, not the parse failure: its \<^verbatim>\<open>data\<close> is the empty object and its
  message the status text, or \<^verbatim>\<open>Request failed\<close> when the status text is empty.
\<close>

theorem handleResponse_parse_failure:
  assumes "\<not> ok res" and "isJson res" and "body_json res = None"
  shows "handleResponse res =
         Inl (HttpError (if statusText res \<noteq> [] then statusText res else ''Request failed'')
                (status res) (JObj []))"
  using assms by (simp add: handleResponse_def read_body_def status_text_message)

theorem handleResponse_parse_failure_witness:
  "\<not> ok \<lparr>status = 500, statusText = [], content_type = Some ''application/json'',
            body_json = None, body_text = ''<html>''\<rparr> \<and>
   isJson \<lparr>status = 500, statusText = [], content_type = Some ''application/json'',
            body_json = None, body_text = ''<html>''\<rparr> \<and>
   handleResponse
     \<lparr>status = 500, statusText = [], content_type = Some ''application/json'',
      body_json = None, body_text = ''<html>''\<rparr>
   = Inl (HttpError ''Request failed'' 500 (JObj []))"
proof -
  let ?res = "\<lparr>status = 500, statusText = [], content_type = Some ''application/json'',
               body_json = None, body_text = ''<html>''\<rparr>"
  have 1: "\<not> ok ?res" by (simp add: ok_def)
  have 2: "isJson ?res" by (simp add: isJson_def)
  have 3: "body_json ?res = None" by simp
  from handleResponse_parse_failure [OF 1 2 3] 1 2 show ?thesis by simp
qed

subsection \<open>Base URL\<close>

lemma trim_empty_iff: "trim s = [] \<longleftrightarrow> list_all js_space s"
proof -
  have "trim s = [] \<longleftrightarrow> (\<forall>c \<in> set (dropWhile js_space s). js_space c)"
    by (simp add: trim_def)
  also have "\<dots> \<longleftrightarrow> dropWhile js_space s = []"
  proof
    assume a: "\<forall>c \<in> set (dropWhile js_space s). js_space c"
    show "dropWhile js_space s = []"
    proof (rule ccontr)
      assume n: "dropWhile js_space s \<noteq> []"
      then have "\<not> js_space (hd (dropWhile js_space s))"
        by (rule hd_dropWhile)
      moreover from n have "hd (dropWhile js_space s) \<in> set (dropWhile js_space s)"
        by simp
      ultimately show False using a by blast
    qed
  next
    assume e: "dropWhile js_space s = []"
    show "\<forall>c \<in> set (dropWhile js_space s). js_space c"
      unfolding e by simp
  qed
  also have "\<dots> \<longleftrightarrow> list_all js_space s"
    by (simp add: list_all_iff)
  finally show ?thesis .
qed

lemma envBase_find:
  "envBase env =
     (case find truthy (sources env) of
        Some v \<Rightarrow> v
      | None \<Rightarrow> get_field (runtimeEnv env) ''VITE_API_BASE'')"
  by (simp add: envBase_def sources_def js_or_def)

lemma resolve_blank:
  assumes "blank (envBase env)"
  shows "resolveBaseUrl env = Inr default_base"
proof (cases "envBase env")
  case (JStr s)
  with assms have "trim s = []"
    by (simp add: blank_def trim_empty_iff)
  with JStr show ?thesis
    by (simp add: resolveBaseUrl_def)
qed (use assms in \<open>simp_all add: blank_def resolveBaseUrl_def\<close>)

lemma find_in_set: "find P xs = Some v \<Longrightarrow> v \<in> set xs"
  by (induction xs) (auto split: if_splits)

text \<open>
  C6.  When none of the four sources is set to a non-blank value,
  \<^verbatim>\<open>resolveBaseUrl\<close> returns \<^verbatim>\<open>http://localhost:3001\<close>.  It does so too when the first
  source that is set (the first truthy one, which the chain of \<^verbatim>\<open>||\<close> selects) is a
  string of white space only, whatever the later sources hold.
\<close>

theorem resolveBaseUrl_default:
  "(list_all blank (sources env) \<longrightarrow> resolveBaseUrl env = Inr ''http://localhost:3001'') \<and>
   (\<forall>s. find truthy (sources env) = Some (JStr s) \<and> list_all js_space s
        \<longrightarrow> resolveBaseUrl env = Inr ''http://localhost:3001'')"
proof (intro conjI impI allI)
  assume a: "list_all blank (sources env)"
  have "blank (envBase env)"
  proof (cases "find truthy (sources env)")
    case None
    with a show ?thesis
      by (simp add: envBase_find) (simp add: sources_def)
  next
    case (Some v)
    then have "v \<in> set (sources env)" by (rule find_in_set)
    with a have "blank v" by (simp add: list_all_iff)
    with Some show ?thesis by (simp add: envBase_find)
  qed
  then show "resolveBaseUrl env = Inr ''http://localhost:3001''"
    using resolve_blank by (simp add: default_base_def)
next
  fix s
  assume "find truthy (sources env) = Some (JStr s) \<and> list_all js_space s"
  then have "blank (envBase env)"
    by (simp add: envBase_find blank_def)
  then show "resolveBaseUrl env = Inr ''http://localhost:3001''"
    using resolve_blank by (simp add: default_base_def)
qed

theorem resolveBaseUrl_default_witness:
  "list_all blank
     (sources \<lparr>process_REACT_APP_API_BASE = None, process_VITE_API_BASE = None,
               window_ENV = None\<rparr>) \<and>
   resolveBaseUrl
     \<lparr>process_REACT_APP_API_BASE = None, process_VITE_API_BASE = None, window_ENV = None\<rparr>
   = Inr ''http://localhost:3001'' \<and>
   find truthy
     (sources \<lparr>process_REACT_APP_API_BASE = Some ''  '',
               process_VITE_API_BASE = Some ''http://api.example'',
               window_ENV = Some JUndefined\<rparr>)
   = Some (JStr ''  '') \<and>
   resolveBaseUrl
     \<lparr>process_REACT_APP_API_BASE = Some ''  '',
      process_VITE_API_BASE = Some ''http://api.example'',
      window_ENV = Some JUndefined\<rparr>
   = Inr ''http://localhost:3001''"
proof -
  let ?e0 = "\<lparr>process_REACT_APP_API_BASE = None, process_VITE_API_BASE = None,
              window_ENV = None\<rparr>"
  let ?e1 = "\<lparr>process_REACT_APP_API_BASE = Some ''  '',
              process_VITE_API_BASE = Some ''http://api.example'',
              window_ENV = Some JUndefined\<rparr>"
  have 1: "list_all blank (sources ?e0)"
    by (simp add: sources_def blank_def env_var_def runtimeEnv_def)
  have 2: "find truthy (sources ?e1) = Some (JStr ''  '') \<and> list_all js_space ''  ''"
    by (simp add: sources_def env_var_def runtimeEnv_def js_space_def)
  from resolveBaseUrl_default [of ?e0] 1
  have 3: "resolveBaseUrl ?e0 = Inr ''http://localhost:3001''" by blast
  from resolveBaseUrl_default [of ?e1] 2
  have 4: "resolveBaseUrl ?e1 = Inr ''http://localhost:3001''" by blast
  from 1 2 3 4 show ?thesis by blast
qed

subsection \<open>Token storage and headers\<close>

lemma getToken_removed:
  "getToken (st\<lparr>items := (items st)(''auth_token'' := None)\<rparr>) = Inr None"
  by (simp add: getToken_def getItem_def)

lemma getToken_denied: "mode st = Denied \<Longrightarrow> getToken st = Inr None"
  by (simp add: getToken_def getItem_def)

lemma buildHeaders_no_token:
  "getToken st = Inr None \<Longrightarrow>
   buildHeaders True st = Inr [(''Content-Type'', ''application/json'')]"
  by (simp add: buildHeaders_def)

lemma setToken_null:
  "setToken JNull st =
     Inr (if mode st = Denied then st else st\<lparr>items := (items st)(''auth_token'' := None)\<rparr>)"
  by (simp add: setToken_def removeItem_def)

text \<open>
  C7, as amended.  \<^verbatim>\<open>api.logout\<close> resolves, and afterwards \<^verbatim>\<open>getToken\<close> returns \<^verbatim>\<open>null\<close>
  and the headers of an authorized request are the JSON content type alone, with
  no \<^verbatim>\<open>Authorization\<close>.  Where the storage can be reached, the item is removed
  from it.
\<close>

theorem logout_clears_token:
  "fst (logout st) = Inr () \<and>
   getToken (snd (logout st)) = Inr None \<and>
   buildHeaders True (snd (logout st)) = Inr [(''Content-Type'', ''application/json'')] \<and>
   (mode st \<noteq> Denied \<longrightarrow> items (snd (logout st)) ''auth_token'' = None)"
proof -
  have 1: "fst (logout st) = Inr ()"
    by (simp add: logout_def setToken_null)
  have 2: "getToken (snd (logout st)) = Inr None"
    by (simp add: logout_def setToken_null getToken_removed getToken_denied)
  from 2 have 3: "buildHeaders True (snd (logout st)) = Inr [(''Content-Type'', ''application/json'')]"
    by (rule buildHeaders_no_token)
  have 4: "mode st \<noteq> Denied \<longrightarrow> items (snd (logout st)) ''auth_token'' = None"
    by (simp add: logout_def setToken_null)
  from 1 2 3 4 show ?thesis by simp
qed

theorem logout_clears_token_witness:
  "buildHeaders True \<lparr>items = [''auth_token'' \<mapsto> ''abc''], mode = Working\<rparr>
   = Inr [(''Content-Type'', ''application/json''), (''Authorization'', ''Bearer abc'')] \<and>
   mode \<lparr>items = [''auth_token'' \<mapsto> ''abc''], mode = Working\<rparr> \<noteq> Denied \<and>
   buildHeaders True (snd (logout \<lparr>items = [''auth_token'' \<mapsto> ''abc''], mode = Working\<rparr>))
   = Inr [(''Content-Type'', ''application/json'')] \<and>
   items (snd (logout \<lparr>items = [''auth_token'' \<mapsto> ''abc''], mode = Working\<rparr>)) ''auth_token''
   = None"
proof -
  let ?st = "\<lparr>items = [''auth_token'' \<mapsto> ''abc''], mode = Working\<rparr>"
  have 1: "buildHeaders True ?st
           = Inr [(''Content-Type'', ''application/json''), (''Authorization'', ''Bearer abc'')]"
    by (simp add: buildHeaders_def getToken_def getItem_def)
  have 2: "mode ?st \<noteq> Denied" by simp
  from logout_clears_token [of ?st] 1 2 show ?thesis by blast
qed

text \<open>
  As stated, C7 has the stored token cleared after every logout.  Under a storage
  whose every access throws, \<^verbatim>\<open>removeItem\<close> throws, the \<^verbatim>\<open>catch\<close> of \<^verbatim>\<open>setToken\<close>
  ignores it, and logout resolves with the token still stored.
\<close>

theorem logout_clears_token_counterexample:
  "fst (logout \<lparr>items = [''auth_token'' \<mapsto> ''abc''], mode = Denied\<rparr>) = Inr () \<and>
   items (snd (logout \<lparr>items = [''auth_token'' \<mapsto> ''abc''], mode = Denied\<rparr>)) ''auth_token''
   = Some ''abc''"
  by (simp add: logout_def setToken_def removeItem_def)

text \<open>
  C9.  When reading the storage throws, \<^verbatim>\<open>getToken\<close> returns \<^verbatim>\<open>null\<close> and the headers
  of an authorized request carry no \<^verbatim>\<open>Authorization\<close>.  When the access
  \<^verbatim>\<open>setToken\<close> makes throws, \<^verbatim>\<open>setToken\<close> returns normally and the storage is as it
  was.  \<^verbatim>\<open>setToken\<close> returns normally in every case.
\<close>

theorem storage_failure_is_no_token:
  "(getItem ''auth_token'' st = Inl e \<longrightarrow>
      getToken st = Inr None \<and>
      buildHeaders True st = Inr [(''Content-Type'', ''application/json'')]) \<and>
   ((if truthy token then setItem ''auth_token'' token st else removeItem ''auth_token'' st) = Inl e'
      \<longrightarrow> setToken token st = Inr st) \<and>
   (\<exists>st'. setToken token st = Inr st')"
proof (intro conjI impI)
  assume "getItem ''auth_token'' st = Inl e"
  then show "getToken st = Inr None"
    by (simp add: getToken_def)
  then show "buildHeaders True st = Inr [(''Content-Type'', ''application/json'')]"
    by (rule buildHeaders_no_token)
next
  assume "(if truthy token then setItem ''auth_token'' token st
           else removeItem ''auth_token'' st) = Inl e'"
  then show "setToken token st = Inr st"
    by (simp add: setToken_def)
next
  show "\<exists>st'. setToken token st = Inr st'"
    by (simp add: setToken_def split: sum.split)
qed

theorem storage_failure_is_no_token_witness:
  "getItem ''auth_token'' \<lparr>items = [''auth_token'' \<mapsto> ''abc''], mode = Denied\<rparr>
   = Inl (PlatformError ''SecurityError'') \<and>
   getToken \<lparr>items = [''auth_token'' \<mapsto> ''abc''], mode = Denied\<rparr> = Inr None \<and>
   buildHeaders True \<lparr>items = [''auth_token'' \<mapsto> ''abc''], mode = Denied\<rparr>
   = Inr [(''Content-Type'', ''application/json'')] \<and>
   setItem ''auth_token'' (JStr ''xyz'') \<lparr>items = [''auth_token'' \<mapsto> ''abc''], mode = Denied\<rparr>
   = Inl (PlatformError ''SecurityError'') \<and>
   setToken (JStr ''xyz'') \<lparr>items = [''auth_token'' \<mapsto> ''abc''], mode = Denied\<rparr>
   = Inr \<lparr>items = [''auth_token'' \<mapsto> ''abc''], mode = Denied\<rparr>"
proof -
  let ?st = "\<lparr>items = [''auth_token'' \<mapsto> ''abc''], mode = Denied\<rparr>"
  have 1: "getItem ''auth_token'' ?st = Inl (PlatformError ''SecurityError'')"
    by (simp add: getItem_def)
  have 2: "setItem ''auth_token'' (JStr ''xyz'') ?st = Inl (PlatformError ''SecurityError'')"
    by (simp add: setItem_def)
  then have 3: "(if truthy (JStr ''xyz'') then setItem ''auth_token'' (JStr ''xyz'') ?st
                 else removeItem ''auth_token'' ?st) = Inl (PlatformError ''SecurityError'')"
    by simp
  from storage_failure_is_no_token
         [of ?st "PlatformError ''SecurityError''" "JStr ''xyz''" "PlatformError ''SecurityError''"]
       1 2 3
  show ?thesis by blast
qed

lemma setToken_string:
  assumes "t \<noteq> []" and "mode st = Working"
  shows "setToken (JStr t) st = Inr (st\<lparr>items := (items st)(''auth_token'' \<mapsto> t)\<rparr>)"
  using assms by (simp add: setToken_def setItem_def)

lemma buildHeaders_stored:
  assumes "t \<noteq> []" and "mode st \<noteq> Denied" and "items st ''auth_token'' = Some t"
  shows "buildHeaders True st =
         Inr [(''Content-Type'', ''application/json''), (''Authorization'', ''Bearer '' @ t)]"
  using assms by (simp add: buildHeaders_def getToken_def getItem_def)

text \<open>
  C2, as amended.  For every token \<open>t\<close> that is not the empty string, and a
  storage that accepts the write: after a login whose response resolves to a
  body with \<^verbatim>\<open>access_token\<close> equal to \<open>t\<close>, \<^verbatim>\<open>getToken\<close> returns \<open>t\<close> and the headers
  of an authorized request hold \<^verbatim>\<open>Authorization\<close> with the value \<^verbatim>\<open>Bearer\<close>, a
  space, and \<open>t\<close>.
\<close>

theorem login_token_roundtrip:
  assumes "handleResponse res = Inr data"
    and "get_field data ''access_token'' = JStr t"
    and "t \<noteq> []"
    and "mode st = Working"
  shows "fst (login (Inr res) st) = Inr data \<and>
         getToken (snd (login (Inr res) st)) = Inr (Some t) \<and>
         buildHeaders True (snd (login (Inr res) st)) =
           Inr [(''Content-Type'', ''application/json''), (''Authorization'', ''Bearer '' @ t)]"
proof -
  let ?st' = "st\<lparr>items := (items st)(''auth_token'' \<mapsto> t)\<rparr>"
  have "truthy (get_field data ''access_token'')"
    using assms(2,3) by simp
  moreover from this have "truthy data"
    by (rule truthy_get_field)
  ultimately have l: "login (Inr res) st = (Inr data, ?st')"
    using assms by (simp add: login_def setToken_string)
  have g: "getToken ?st' = Inr (Some t)"
    using assms(4) by (simp add: getToken_def getItem_def)
  have h: "buildHeaders True ?st' =
           Inr [(''Content-Type'', ''application/json''), (''Authorization'', ''Bearer '' @ t)]"
    using assms(3,4) by (intro buildHeaders_stored) simp_all
  from l g h show ?thesis by simp
qed

theorem login_token_roundtrip_witness:
  "handleResponse
     \<lparr>status = 200, statusText = ''OK'', content_type = Some ''application/json'',
      body_json = Some (JObj [(''access_token'', JStr ''abc''), (''token_type'', JStr ''bearer'')]),
      body_text = []\<rparr>
   = Inr (JObj [(''access_token'', JStr ''abc''), (''token_type'', JStr ''bearer'')]) \<and>
   buildHeaders True
     (snd (login
        (Inr \<lparr>status = 200, statusText = ''OK'', content_type = Some ''application/json'',
              body_json = Some (JObj [(''access_token'', JStr ''abc''),
                                      (''token_type'', JStr ''bearer'')]),
              body_text = []\<rparr>)
        \<lparr>items = Map.empty, mode = Working\<rparr>))
   = Inr [(''Content-Type'', ''application/json''), (''Authorization'', ''Bearer abc'')]"
proof -
  let ?data = "JObj [(''access_token'', JStr ''abc''), (''token_type'', JStr ''bearer'')]"
  let ?res = "\<lparr>status = 200, statusText = ''OK'', content_type = Some ''application/json'',
               body_json = Some ?data, body_text = []\<rparr>"
  let ?st = "\<lparr>items = Map.empty, mode = Working\<rparr>"
  have 1: "handleResponse ?res = Inr ?data"
    by (simp add: handleResponse_def read_body_def isJson_def ok_def)
  have 2: "get_field ?data ''access_token'' = JStr ''abc''" by simp
  have 3: "''abc'' \<noteq> []" by simp
  have 4: "mode ?st = Working" by simp
  from login_token_roundtrip [OF 1 2 3 4] 1 show ?thesis by simp
qed

text \<open>
  As stated, C2 speaks of every token string.  A login whose \<^verbatim>\<open>access_token\<close> is
  the empty string succeeds and stores nothing (\<^verbatim>\<open>if (data && data.access_token)\<close>),
  and a login with the token \<^verbatim>\<open>abc\<close> under a storage that throws succeeds and
  stores nothing (\<^verbatim>\<open>setToken\<close> ignores the error): in both, the headers of an
  authorized request built afterwards have no \<^verbatim>\<open>Authorization\<close>.
\<close>

theorem login_token_roundtrip_counterexample:
  "handleResponse
     \<lparr>status = 200, statusText = ''OK'', content_type = Some ''application/json'',
      body_json = Some (JObj [(''access_token'', JStr [])]), body_text = []\<rparr>
   = Inr (JObj [(''access_token'', JStr [])]) \<and>
   fst (login
          (Inr \<lparr>status = 200, statusText = ''OK'', content_type = Some ''application/json'',
                body_json = Some (JObj [(''access_token'', JStr [])]), body_text = []\<rparr>)
          \<lparr>items = Map.empty, mode = Working\<rparr>)
   = Inr (JObj [(''access_token'', JStr [])]) \<and>
   buildHeaders True
     (snd (login
        (Inr \<lparr>status = 200, statusText = ''OK'', content_type = Some ''application/json'',
              body_json = Some (JObj [(''access_token'', JStr [])]), body_text = []\<rparr>)
        \<lparr>items = Map.empty, mode = Working\<rparr>))
   = Inr [(''Content-Type'', ''application/json'')] \<and>
   fst (login
          (Inr \<lparr>status = 200, statusText = ''OK'', content_type = Some ''application/json'',
                body_json = Some (JObj [(''access_token'', JStr ''abc'')]), body_text = []\<rparr>)
          \<lparr>items = Map.empty, mode = Denied\<rparr>)
   = Inr (JObj [(''access_token'', JStr ''abc'')]) \<and>
   buildHeaders True
     (snd (login
        (Inr \<lparr>status = 200, statusText = ''OK'', content_type = Some ''application/json'',
              body_json = Some (JObj [(''access_token'', JStr ''abc'')]), body_text = []\<rparr>)
        \<lparr>items = Map.empty, mode = Denied\<rparr>))
   = Inr [(''Content-Type'', ''application/json'')]"
  by (simp add: handleResponse_def read_body_def isJson_def ok_def login_def setToken_def
        setItem_def buildHeaders_def getToken_def getItem_def)

section \<open>Properties of the application shell\<close>

subsection \<open>Failure and success of a client call\<close>

lemma message_or_nonempty: "fallback \<noteq> [] \<Longrightarrow> message_or e1 fallback \<noteq> []"
  by (simp add: message_or_def)

text \<open>
  C4.  When the client call of \<^verbatim>\<open>onCreate\<close>, \<^verbatim>\<open>onUpdate\<close> (in edit mode, where it
  makes the call) or \<^verbatim>\<open>onDelete\<close> rejects with \<open>e1\<close>, the state afterwards is the
  state before with \<^verbatim>\<open>err\<close> set: the entries and the draft are as they were.  The
  message is that of \<open>e1\<close>, or the fixed text of the handler when \<open>e1\<close> has none,
  and it is never empty.
\<close>

theorem failed_call_leaves_state:
  "(api (CreateEntry (title (draft s)) (content (draft s))) = Inl e1 \<longrightarrow>
      fst (onCreate api s) = Inr (s\<lparr>err := message_or e1 ''Create failed''\<rparr>) \<and>
      message_or e1 ''Create failed'' \<noteq> []) \<and>
   (truthy (id_field (draft s)) \<and>
    api (UpdateEntry (id_field (draft s)) (title (draft s)) (content (draft s))) = Inl e1 \<longrightarrow>
      fst (onUpdate api same s) = Inr (s\<lparr>err := message_or e1 ''Update failed''\<rparr>) \<and>
      message_or e1 ''Update failed'' \<noteq> []) \<and>
   (api (DeleteEntry i) = Inl e1 \<longrightarrow>
      fst (onDelete i api same s) = Inr (s\<lparr>err := message_or e1 ''Delete failed''\<rparr>) \<and>
      message_or e1 ''Delete failed'' \<noteq> [])"
proof (intro conjI impI)
  assume "api (CreateEntry (title (draft s)) (content (draft s))) = Inl e1"
  then show "fst (onCreate api s) = Inr (s\<lparr>err := message_or e1 ''Create failed''\<rparr>)"
    by (simp add: onCreate_def)
next
  assume "truthy (id_field (draft s)) \<and>
          api (UpdateEntry (id_field (draft s)) (title (draft s)) (content (draft s))) = Inl e1"
  then show "fst (onUpdate api same s) = Inr (s\<lparr>err := message_or e1 ''Update failed''\<rparr>)"
    by (simp add: onUpdate_def)
next
  assume "api (DeleteEntry i) = Inl e1"
  then show "fst (onDelete i api same s) = Inr (s\<lparr>err := message_or e1 ''Delete failed''\<rparr>)"
    by (simp add: onDelete_def)
qed (simp_all add: message_or_nonempty)

theorem failed_call_leaves_state_witness:
  "fst (onCreate (\<lambda>c. Inl (HttpError ''Title is required'' 422 (JObj [(''detail'', JStr ''Title is required'')])))
          \<lparr>entries = [JObj [(''id'', JNum ''1'')]], err = [],
           draft = \<lparr>id_field = JNull, title = JStr [], content = JStr ''text''\<rparr>\<rparr>)
   = Inr \<lparr>entries = [JObj [(''id'', JNum ''1'')]], err = ''Title is required'',
          draft = \<lparr>id_field = JNull, title = JStr [], content = JStr ''text''\<rparr>\<rparr> \<and>
   truthy (JNum ''1'') \<and>
   fst (onUpdate (\<lambda>c. Inl (PlatformError [])) (\<lambda>k. False)
          \<lparr>entries = [JObj [(''id'', JNum ''1'')]], err = [],
           draft = \<lparr>id_field = JNum ''1'', title = JStr ''t'', content = JStr ''text''\<rparr>\<rparr>)
   = Inr \<lparr>entries = [JObj [(''id'', JNum ''1'')]], err = ''Update failed'',
          draft = \<lparr>id_field = JNum ''1'', title = JStr ''t'', content = JStr ''text''\<rparr>\<rparr> \<and>
   fst (onDelete (JNum ''1'') (\<lambda>c. Inl (PlatformError ''Failed to fetch'')) (\<lambda>k. False)
          \<lparr>entries = [JObj [(''id'', JNum ''1'')]], err = [],
           draft = \<lparr>id_field = JNull, title = JStr [], content = JStr []\<rparr>\<rparr>)
   = Inr \<lparr>entries = [JObj [(''id'', JNum ''1'')]], err = ''Failed to fetch'',
          draft = \<lparr>id_field = JNull, title = JStr [], content = JStr []\<rparr>\<rparr>"
proof -
  let ?e = "HttpError ''Title is required'' 422 (JObj [(''detail'', JStr ''Title is required'')])"
  let ?s1 = "\<lparr>entries = [JObj [(''id'', JNum ''1'')]], err = [],
              draft = \<lparr>id_field = JNull, title = JStr [], content = JStr ''text''\<rparr>\<rparr>"
  let ?s2 = "\<lparr>entries = [JObj [(''id'', JNum ''1'')]], err = [],
              draft = \<lparr>id_field = JNum ''1'', title = JStr ''t'', content = JStr ''text''\<rparr>\<rparr>"
  let ?s3 = "\<lparr>entries = [JObj [(''id'', JNum ''1'')]], err = [],
              draft = \<lparr>id_field = JNull, title = JStr [], content = JStr []\<rparr>\<rparr>"
  have 1: "fst (onCreate (\<lambda>c. Inl ?e) ?s1) = Inr (?s1\<lparr>err := message_or ?e ''Create failed''\<rparr>)"
    using failed_call_leaves_state [where api = "\<lambda>c. Inl ?e" and s = ?s1 and ?e1.0 = ?e] by simp
  have 2: "fst (onUpdate (\<lambda>c. Inl (PlatformError [])) (\<lambda>k. False) ?s2)
           = Inr (?s2\<lparr>err := message_or (PlatformError []) ''Update failed''\<rparr>)"
    using failed_call_leaves_state
            [where api = "\<lambda>c. Inl (PlatformError [])" and s = ?s2 and ?e1.0 = "PlatformError []"
               and same = "\<lambda>k. False"]
    by simp
  have 3: "fst (onDelete (JNum ''1'') (\<lambda>c. Inl (PlatformError ''Failed to fetch'')) (\<lambda>k. False) ?s3)
           = Inr (?s3\<lparr>err := message_or (PlatformError ''Failed to fetch'') ''Delete failed''\<rparr>)"
    using failed_call_leaves_state
            [where api = "\<lambda>c. Inl (PlatformError ''Failed to fetch'')" and s = ?s3
               and ?e1.0 = "PlatformError ''Failed to fetch''" and i = "JNum ''1''"
               and same = "\<lambda>k. False"]
    by simp
  from 1 2 3 show ?thesis by (simp add: message_or_def)
qed

text \<open>
  C8.  When the client call of \<^verbatim>\<open>onCreate\<close> resolves to \<open>e\<close>, the entries afterwards
  are \<open>e\<close> followed by the entries before, in their order; the handler made the
  one call \<^verbatim>\<open>createEntry\<close> and did not list the entries again.
\<close>

theorem create_prepends:
  assumes "api (CreateEntry (title (draft s)) (content (draft s))) = Inr e"
  shows "fst (onCreate api s) = Inr (s\<lparr>err := [], draft := empty_draft, entries := e # entries s\<rparr>) \<and>
         snd (onCreate api s) = [CreateEntry (title (draft s)) (content (draft s))] \<and>
         ListEntries \<notin> set (snd (onCreate api s))"
  using assms by (simp add: onCreate_def)

theorem create_prepends_witness:
  "fst (onCreate (\<lambda>c. Inr (JObj [(''id'', JNum ''2''), (''title'', JStr ''new'')]))
          \<lparr>entries = [JObj [(''id'', JNum ''1''), (''title'', JStr ''old'')]], err = ''stale'',
           draft = \<lparr>id_field = JNull, title = JStr ''new'', content = JStr ''text''\<rparr>\<rparr>)
   = Inr \<lparr>entries = [JObj [(''id'', JNum ''2''), (''title'', JStr ''new'')],
                      JObj [(''id'', JNum ''1''), (''title'', JStr ''old'')]],
          err = [],
          draft = \<lparr>id_field = JNull, title = JStr [], content = JStr []\<rparr>\<rparr> \<and>
   snd (onCreate (\<lambda>c. Inr (JObj [(''id'', JNum ''2''), (''title'', JStr ''new'')]))
          \<lparr>entries = [JObj [(''id'', JNum ''1''), (''title'', JStr ''old'')]], err = ''stale'',
           draft = \<lparr>id_field = JNull, title = JStr ''new'', content = JStr ''text''\<rparr>\<rparr>)
   = [CreateEntry (JStr ''new'') (JStr ''text'')]"
proof -
  let ?e = "JObj [(''id'', JNum ''2''), (''title'', JStr ''new'')]"
  let ?s = "\<lparr>entries = [JObj [(''id'', JNum ''1''), (''title'', JStr ''old'')]], err = ''stale'',
             draft = \<lparr>id_field = JNull, title = JStr ''new'', content = JStr ''text''\<rparr>\<rparr>"
  have 1: "(\<lambda>c. Inr ?e) (CreateEntry (title (draft ?s)) (content (draft ?s))) = Inr ?e"
    by simp
  from create_prepends [of "\<lambda>c. Inr ?e" ?s ?e, OF 1] show ?thesis
    by (simp add: empty_draft_def)
qed

subsection \<open>The draft and the list\<close>













lemma seen_mono:
  "draft_refers_to_seen hist s \<Longrightarrow> set hist \<subseteq> set hist' \<Longrightarrow> draft_refers_to_seen hist' s"
  unfolding draft_refers_to_seen_def by blast








end
